theory Spec2Isabelle
  imports Main "HOL-Library.Sublist"
begin

section \<open>Go values used by package hash\<close>

text \<open>
  A Go \<^verbatim>\<open>string\<close> is an immutable sequence of bytes and a \<^verbatim>\<open>[]byte\<close> is a
  sequence of bytes; a HOL \<open>char\<close> is one byte. The conversions \<^verbatim>\<open>[]byte(s)\<close> and
  \<^verbatim>\<open>string(b)\<close> copy the bytes unchanged.
\<close>

type_synonym bytes = "char list"

definition bytes_of_string :: "string \<Rightarrow> bytes" where
  "bytes_of_string s = s"

definition string_of_bytes :: "bytes \<Rightarrow> string" where
  "string_of_bytes b = b"

text \<open>
  A Go \<^verbatim>\<open>error\<close> is modelled by what a caller can observe of it: its message
  (\<^verbatim>\<open>Error()\<close>) and the error it wraps (\<^verbatim>\<open>Unwrap()\<close>), if any. \<^verbatim>\<open>errors.New(m)\<close> is
  \<open>errorString m\<close>; \<^verbatim>\<open>fmt.Errorf\<close> with one \<^verbatim>\<open>%w\<close> verb gives a \<open>wrapError\<close>.
\<close>

datatype error = errorString string | wrapError string error

fun Error :: "error \<Rightarrow> string" where
  "Error (errorString m) = m"
| "Error (wrapError m e) = m"

fun Unwrap :: "error \<Rightarrow> error option" where
  "Unwrap (errorString m) = None"
| "Unwrap (wrapError m e) = Some e"

text \<open>
  \<^verbatim>\<open>fmt.Errorf(prefix + "%w", err)\<close>: the message is the prefix followed by the
  message of \<^verbatim>\<open>err\<close>, and \<^verbatim>\<open>err\<close> is kept for \<^verbatim>\<open>Unwrap\<close>.
\<close>

definition Errorf_w :: "string \<Rightarrow> error \<Rightarrow> error" where
  "Errorf_w pfx err = wrapError (pfx @ Error err) err"

text \<open>\<^verbatim>\<open>strings.Contains(s, substr)\<close>, as used by \<^verbatim>\<open>assert.Error\<close>.\<close>

fun Contains :: "string \<Rightarrow> string \<Rightarrow> bool" where
  "Contains [] substr = (substr = [])"
| "Contains (c # cs) substr = (prefix substr (c # cs) \<or> Contains cs substr)"

text \<open>
  A Go call either returns or panics. A panic in a callee that is not recovered
  unwinds through the caller.
\<close>

datatype 'a outcome = Returned 'a | Panicked error

section \<open>The imported package \<^verbatim>\<open>golang.org/x/crypto/bcrypt\<close>\<close>

text \<open>
  Package hash calls two functions and reads one constant of the bcrypt package, which
  is not part of this repository. They are a parameter of the model.
  \<^item> \<^verbatim>\<open>GenerateFromPassword(password, cost) ([]byte, error)\<close> takes, as a third
    argument here, the bytes it reads from the system's random source during the call.
  \<^item> \<^verbatim>\<open>CompareHashAndPassword(hashedPassword, password) error\<close>; \<open>None\<close> is \<^verbatim>\<open>nil\<close>.
\<close>

record bcrypt =
  GenerateFromPassword :: "bytes \<Rightarrow> int \<Rightarrow> bytes \<Rightarrow> (bytes \<times> error option) outcome"
  CompareHashAndPassword :: "bytes \<Rightarrow> bytes \<Rightarrow> (error option) outcome"
  DefaultCost :: int

section \<open>Package hash: the type \<^verbatim>\<open>Hash\<close> (hash/hash.go)\<close>

record Hash =
  "value" :: bytes

text \<open>
  \<^verbatim>\<open>
  func New(s string) Hash {
      hashBytes, err := bcrypt.GenerateFromPassword([]byte(s), bcrypt.DefaultCost)
      if err != nil { panic(err) }
      hash := Hash{value: hashBytes}
      return hash
  }\<close>
\<close>

definition New :: "bcrypt \<Rightarrow> bytes \<Rightarrow> string \<Rightarrow> Hash outcome" where
  "New B rnd s =
     (case GenerateFromPassword B (bytes_of_string s) (DefaultCost B) rnd of
        Panicked p \<Rightarrow> Panicked p
      | Returned (hashBytes, err) \<Rightarrow>
          (case err of
             Some e \<Rightarrow> Panicked e
           | None \<Rightarrow> Returned \<lparr>value = hashBytes\<rparr>))"

text \<open>
  \<^verbatim>\<open>
  func (h Hash) Compare(o string) error {
      if err := bcrypt.CompareHashAndPassword(h.value, []byte(o)); err != nil {
          return fmt.Errorf("hash: compare: hash mismatch: %w", err)
      }
      return nil
  }\<close>
\<close>

definition Compare :: "bcrypt \<Rightarrow> Hash \<Rightarrow> string \<Rightarrow> (error option) outcome" where
  "Compare B h other =
     (case CompareHashAndPassword B (value h) (bytes_of_string other) of
        Panicked p \<Rightarrow> Panicked p
      | Returned (Some err) \<Rightarrow>
          Returned (Some (Errorf_w ''hash: compare: hash mismatch: '' err))
      | Returned None \<Rightarrow> Returned None)"

section \<open>Package hash: the free functions \<^verbatim>\<open>Check\<close> and \<^verbatim>\<open>Generate\<close>\<close>

text \<open>
  \<^verbatim>\<open>
  func Check(guess, hash string) error {
      if err := bcrypt.CompareHashAndPassword([]byte(hash), []byte(guess)); err != nil {
          return fmt.Errorf("check failed: %w", err)
      }
      return nil
  }\<close>
\<close>

definition Check :: "bcrypt \<Rightarrow> string \<Rightarrow> string \<Rightarrow> (error option) outcome" where
  "Check B guess hash =
     (case CompareHashAndPassword B (bytes_of_string hash) (bytes_of_string guess) of
        Panicked p \<Rightarrow> Panicked p
      | Returned (Some err) \<Rightarrow> Returned (Some (Errorf_w ''check failed: '' err))
      | Returned None \<Rightarrow> Returned None)"

text \<open>
  \<^verbatim>\<open>
  func Generate(s string) string {
      hash, err := bcrypt.GenerateFromPassword([]byte(s), bcrypt.DefaultCost)
      if err != nil { panic(err) }
      return string(hash)
  }\<close>
\<close>

definition Generate :: "bcrypt \<Rightarrow> bytes \<Rightarrow> string \<Rightarrow> string outcome" where
  "Generate B rnd s =
     (case GenerateFromPassword B (bytes_of_string s) (DefaultCost B) rnd of
        Panicked p \<Rightarrow> Panicked p
      | Returned (hash, err) \<Rightarrow>
          (case err of
             Some e \<Rightarrow> Panicked e
           | None \<Rightarrow> Returned (string_of_bytes hash)))"

section \<open>Contracts of the imported package\<close>

text \<open>
  The round trip of the bcrypt package itself: a digest that \<^verbatim>\<open>GenerateFromPassword\<close>
  returned without error for a password, at any cost and with any random bytes, is
  accepted by \<^verbatim>\<open>CompareHashAndPassword\<close> for that password.
\<close>

definition round_trip :: "bcrypt \<Rightarrow> bool" where
  "round_trip B =
     (\<forall>password cost rnd d.
        GenerateFromPassword B password cost rnd = Returned (d, None) \<longrightarrow>
        CompareHashAndPassword B d password = Returned None)"

text \<open>
  The salt shows in the digest: two digests that \<^verbatim>\<open>GenerateFromPassword\<close> returned
  without error for the same password and cost, reading different random bytes, are
  different.
\<close>

definition salted :: "bcrypt \<Rightarrow> bool" where
  "salted B =
     (\<forall>password cost rnd rnd' d d'.
        GenerateFromPassword B password cost rnd = Returned (d, None) \<longrightarrow>
        GenerateFromPassword B password cost rnd' = Returned (d', None) \<longrightarrow>
        rnd \<noteq> rnd' \<longrightarrow> d \<noteq> d')"

section \<open>An executable instance of the bcrypt interface\<close>

text \<open>
  A small instance of the interface, used to run package hash on concrete inputs. It
  follows the bcrypt package in what a caller of package hash can observe:
  \<^item> the digest is \<^verbatim>\<open>$2a$\<close>, the cost in two digits, \<^verbatim>\<open>$\<close>, 22 bytes of salt and 31 bytes
    of tag, 60 bytes in all;
  \<^item> \<^verbatim>\<open>GenerateFromPassword\<close> rejects a password of more than 72 bytes, replaces a cost
    below \<^verbatim>\<open>MinCost\<close> by the default and rejects a cost above \<^verbatim>\<open>MaxCost\<close>;
  \<^item> \<^verbatim>\<open>CompareHashAndPassword\<close> rejects a digest of less than 59 bytes, one that does not
    start with \<^verbatim>\<open>$\<close>, a major version above \<^verbatim>\<open>2\<close> and a cost that is not two digits
    within range; it reads the cost and the salt from the digest, computes the tag of
    the password again and compares it with the rest of the digest; it does not compare
    the version bytes with anything;
  \<^item> the key is the password followed by a NUL byte, read cyclically up to 72 bytes, as
    the Blowfish key schedule reads it;
  \<^item> the sentinel errors carry the messages of the package.

  It differs from the package in what follows. The tag is an exclusive-or of the key
  stream with the cost and the salt, not a cryptographic hash. The 16 random bytes are
  padded to 22 bytes where the package encodes them in its base-64 alphabet, and
  \<^verbatim>\<open>CompareHashAndPassword\<close> takes the salt as it is where the package decodes it and
  reports an encoding error for a byte outside that alphabet. A cost is two decimal
  digits; signs, which \<^verbatim>\<open>strconv.Atoi\<close> accepts, are a syntax error here, and the message
  of that error quotes the two bytes without escaping them.
\<close>

definition MinCost :: int where
  "MinCost = 4"

definition MaxCost :: int where
  "MaxCost = 31"

definition majorVersion :: char where
  "majorVersion = CHR ''2''"

definition minorVersion :: char where
  "minorVersion = CHR ''a''"

definition maxSaltSize :: nat where
  "maxSaltSize = 16"

definition encodedSaltSize :: nat where
  "encodedSaltSize = 22"

definition minHashSize :: nat where
  "minHashSize = 59"

text \<open>Decimal digits, and \<^verbatim>\<open>%d\<close> of a number that is not negative.\<close>

definition digit_char :: "nat \<Rightarrow> char" where
  "digit_char n = char_of (48 + n)"

definition digit_of :: "char \<Rightarrow> nat option" where
  "digit_of c =
     (let v = of_char c :: nat in if 48 \<le> v \<and> v \<le> 57 then Some (v - 48) else None)"

fun decimal :: "nat \<Rightarrow> string" where
  "decimal n = (if n < 10 then [digit_char n] else decimal (n div 10) @ [digit_char (n mod 10)])"

text \<open>\<^verbatim>\<open>%02d\<close> of a cost from 0 to 99; the costs that reach it are within \<^verbatim>\<open>MinCost\<close> and \<^verbatim>\<open>MaxCost\<close>.\<close>

definition cost_digits :: "int \<Rightarrow> bytes" where
  "cost_digits cost = [digit_char (nat cost div 10), digit_char (nat cost mod 10)]"

text \<open>\<^verbatim>\<open>%c\<close> of a byte: the UTF-8 encoding of the code point with that number.\<close>

fun format_c :: "char \<Rightarrow> string" where
  "format_c (Char b0 b1 b2 b3 b4 b5 b6 b7) =
     (if b7 then [Char b6 b7 False False False False True True,
                  Char b0 b1 b2 b3 b4 b5 False True]
      else [Char b0 b1 b2 b3 b4 b5 b6 b7])"

definition ErrMismatchedHashAndPassword :: error where
  "ErrMismatchedHashAndPassword =
     errorString ''crypto/bcrypt: hashedPassword is not the hash of the given password''"

definition ErrHashTooShort :: error where
  "ErrHashTooShort =
     errorString ''crypto/bcrypt: hashedSecret too short to be a bcrypted password''"

definition ErrPasswordTooLong :: error where
  "ErrPasswordTooLong = errorString ''bcrypt: password length exceeds 72 bytes''"

definition ErrUnexpectedEOF :: error where
  "ErrUnexpectedEOF = errorString ''unexpected EOF''"

definition InvalidHashPrefixError :: "char \<Rightarrow> error" where
  "InvalidHashPrefixError c =
     errorString (''crypto/bcrypt: bcrypt hashes must start with '' @ [CHR 0x27, CHR ''$'', CHR 0x27]
       @ '', but hashedSecret started with '' @ [CHR 0x27] @ format_c c @ [CHR 0x27])"

definition HashVersionTooNewError :: "char \<Rightarrow> error" where
  "HashVersionTooNewError c =
     errorString (''crypto/bcrypt: bcrypt algorithm version '' @ [CHR 0x27] @ format_c c @ [CHR 0x27]
       @ '' requested is newer than current version '' @ [CHR 0x27] @ format_c majorVersion @ [CHR 0x27])"

definition InvalidCostError :: "int \<Rightarrow> error" where
  "InvalidCostError cost =
     errorString (''crypto/bcrypt: cost '' @ decimal (nat cost)
       @ '' is outside allowed inclusive range '' @ decimal (nat MinCost) @ ''..''
       @ decimal (nat MaxCost))"

definition AtoiSyntaxError :: "bytes \<Rightarrow> error" where
  "AtoiSyntaxError s =
     errorString (''strconv.Atoi: parsing '' @ [CHR 0x22] @ s @ [CHR 0x22] @ '': invalid syntax'')"

text \<open>\<open>key_stream n key rest\<close>: the next \<open>n\<close> bytes of \<open>key\<close> read cyclically.\<close>

fun key_stream :: "nat \<Rightarrow> bytes \<Rightarrow> bytes \<Rightarrow> bytes" where
  "key_stream 0 key rest = []"
| "key_stream (Suc n) key [] = (case key of [] \<Rightarrow> [] | k # ks \<Rightarrow> k # key_stream n key ks)"
| "key_stream (Suc n) key (r # rs) = r # key_stream n key rs"

fun mix :: "char \<Rightarrow> char \<Rightarrow> char" where
  "mix (Char a0 a1 a2 a3 a4 a5 a6 a7) (Char b0 b1 b2 b3 b4 b5 b6 b7) =
     Char (a0 \<noteq> b0) (a1 \<noteq> b1) (a2 \<noteq> b2) (a3 \<noteq> b3)
          (a4 \<noteq> b4) (a5 \<noteq> b5) (a6 \<noteq> b6) (a7 \<noteq> b7)"

text \<open>
  The tag of a password under a cost and an encoded salt: 72 bytes of key stream mixed
  with the cost and the salt, folded to 31 bytes.
\<close>

definition sample_tag :: "int \<Rightarrow> bytes \<Rightarrow> bytes \<Rightarrow> bytes" where
  "sample_tag cost salt password =
     (let ckey = password @ [CHR 0x00];
          csalt = cost_digits cost @ salt;
          m = map2 mix (key_stream 72 ckey ckey) (key_stream 72 csalt csalt);
          tl = drop 62 m
      in map2 mix (map2 mix (take 31 m) (take 31 (drop 31 m))) (key_stream 31 tl tl))"

definition sample_encode_salt :: "bytes \<Rightarrow> bytes" where
  "sample_encode_salt unencodedSalt = unencodedSalt @ ''......''"

text \<open>The digest of the package's \<^verbatim>\<open>(*hashed).Hash\<close>, with the versions it writes.\<close>

definition sample_Hash :: "int \<Rightarrow> bytes \<Rightarrow> bytes \<Rightarrow> bytes" where
  "sample_Hash cost salt hash =
     [CHR ''$'', majorVersion, minorVersion, CHR ''$''] @ cost_digits cost @ ''$'' @ salt @ hash"

definition sample_generate :: "bytes \<Rightarrow> int \<Rightarrow> bytes \<Rightarrow> (bytes \<times> error option) outcome" where
  "sample_generate password cost rnd =
     (if 72 < length password then Returned ([], Some ErrPasswordTooLong)
      else
        let cost' = (if cost < MinCost then 10 else cost)
        in if MaxCost < cost' then Returned ([], Some (InvalidCostError cost'))
           else if length rnd \<noteq> maxSaltSize then Returned ([], Some ErrUnexpectedEOF)
           else
             let salt = sample_encode_salt rnd
             in Returned (sample_Hash cost' salt (sample_tag cost' salt password), None))"

definition decodeCost :: "bytes \<Rightarrow> error + int" where
  "decodeCost sbytes =
     (case map digit_of (take 2 sbytes) of
        [Some a, Some b] \<Rightarrow>
          (let cost = int (10 * a + b)
           in if cost < MinCost \<or> MaxCost < cost then Inl (InvalidCostError cost) else Inr cost)
      | _ \<Rightarrow> Inl (AtoiSyntaxError (take 2 sbytes)))"

definition sample_compare :: "bytes \<Rightarrow> bytes \<Rightarrow> (error option) outcome" where
  "sample_compare hashedPassword password =
     (if length hashedPassword < minHashSize then Returned (Some ErrHashTooShort)
      else if hashedPassword ! 0 \<noteq> CHR ''$''
      then Returned (Some (InvalidHashPrefixError (hashedPassword ! 0)))
      else if (of_char majorVersion :: nat) < of_char (hashedPassword ! 1)
      then Returned (Some (HashVersionTooNewError (hashedPassword ! 1)))
      else
        let n = (if hashedPassword ! 2 \<noteq> CHR ''$'' then 4 else 3)
        in case decodeCost (drop n hashedPassword) of
             Inl err \<Rightarrow> Returned (Some err)
           | Inr cost \<Rightarrow>
               let salt = take encodedSaltSize (drop (n + 3) hashedPassword);
                   hash = drop (n + 3 + encodedSaltSize) hashedPassword
               in if hash = sample_tag cost salt password then Returned None
                  else Returned (Some ErrMismatchedHashAndPassword))"

definition sample_bcrypt :: bcrypt where
  "sample_bcrypt =
     \<lparr>GenerateFromPassword = sample_generate,
      CompareHashAndPassword = sample_compare,
      DefaultCost = 10\<rparr>"

text \<open>
  Sixteen bytes standing for one read of the random source, sixteen other bytes for
  another read, and the digest that the instance generates at its default cost.
\<close>

definition rnd0 :: bytes where
  "rnd0 = ''0123456789abcdef''"

definition rnd1 :: bytes where
  "rnd1 = ''fedcba9876543210''"

definition sample_digest :: "bytes \<Rightarrow> bytes \<Rightarrow> bytes" where
  "sample_digest rnd password =
     sample_Hash 10 (sample_encode_salt rnd) (sample_tag 10 (sample_encode_salt rnd) password)"

section \<open>How the wrappers follow the primitive\<close>

lemma New_returns:
  "GenerateFromPassword B (bytes_of_string s) (DefaultCost B) rnd = Returned (d, None)
   \<Longrightarrow> New B rnd s = Returned \<lparr>value = d\<rparr>"
  by (simp add: New_def)

lemma New_panics:
  "GenerateFromPassword B (bytes_of_string s) (DefaultCost B) rnd = Returned (d, Some e)
   \<Longrightarrow> New B rnd s = Panicked e"
  by (simp add: New_def)

lemma Generate_returns:
  "GenerateFromPassword B (bytes_of_string s) (DefaultCost B) rnd = Returned (d, None)
   \<Longrightarrow> Generate B rnd s = Returned (string_of_bytes d)"
  by (simp add: Generate_def)

lemma Generate_panics:
  "GenerateFromPassword B (bytes_of_string s) (DefaultCost B) rnd = Returned (d, Some e)
   \<Longrightarrow> Generate B rnd s = Panicked e"
  by (simp add: Generate_def)

lemma Compare_nil:
  "CompareHashAndPassword B (value h) (bytes_of_string s) = Returned None
   \<Longrightarrow> Compare B h s = Returned None"
  by (simp add: Compare_def)

lemma Compare_error:
  "CompareHashAndPassword B (value h) (bytes_of_string s) = Returned (Some e)
   \<Longrightarrow> Compare B h s = Returned (Some (Errorf_w ''hash: compare: hash mismatch: '' e))"
  by (simp add: Compare_def)

lemma Check_nil:
  "CompareHashAndPassword B (bytes_of_string d) (bytes_of_string s) = Returned None
   \<Longrightarrow> Check B s d = Returned None"
  by (simp add: Check_def)

lemma Check_error:
  "CompareHashAndPassword B (bytes_of_string d) (bytes_of_string s) = Returned (Some e)
   \<Longrightarrow> Check B s d = Returned (Some (Errorf_w ''check failed: '' e))"
  by (simp add: Check_def)

lemma bytes_string_bytes [simp]: "bytes_of_string (string_of_bytes b) = b"
  by (simp add: bytes_of_string_def string_of_bytes_def)

lemma round_tripD:
  "round_trip B \<Longrightarrow> GenerateFromPassword B p c rnd = Returned (d, None)
   \<Longrightarrow> CompareHashAndPassword B d p = Returned None"
  unfolding round_trip_def by blast

lemma Unwrap_Errorf_w [simp]: "Unwrap (Errorf_w pfx e) = Some e"
  by (simp add: Errorf_w_def)

lemma Error_Errorf_w [simp]: "Error (Errorf_w pfx e) = pfx @ Error e"
  by (simp add: Errorf_w_def)

lemma Contains_sublist: "Contains s substr = sublist substr s"
  by (induction s) (auto simp: sublist_Cons_right)

lemma Contains_compare_prefix:
  "Contains (''hash: compare: hash mismatch: '' @ m) ''hash mismatch''"
  by simp

lemma Contains_compare_prefix':
  "Contains (''hash: compare: hash mismatch: '' @ m) ''mismatch''"
  by simp

lemma Contains_check_prefix:
  "Contains (''check failed: '' @ m) ''mismatch'' = Contains m ''mismatch''"
  by simp

section \<open>The sample instance\<close>

lemma length_key_stream: "key \<noteq> [] \<Longrightarrow> length (key_stream n key rest) = n"
proof (induction n arbitrary: rest)
  case 0
  then show ?case by simp
next
  case (Suc n)
  then show ?case by (cases rest; cases key) simp_all
qed

lemma length_cost_digits [simp]: "length (cost_digits c) = 2"
  by (simp add: cost_digits_def)

lemma length_sample_tag [simp]: "length (sample_tag c salt p) = 31"
proof -
  let ?k = "key_stream 72 (p @ [CHR 0x00]) (p @ [CHR 0x00])"
  let ?s = "key_stream 72 (cost_digits c @ salt) (cost_digits c @ salt)"
  let ?m = "map2 mix ?k ?s"
  have k: "length ?k = 72" by (rule length_key_stream) simp
  have "cost_digits c @ salt \<noteq> []" by (simp add: cost_digits_def)
  then have s: "length ?s = 72" by (rule length_key_stream)
  have m: "length ?m = 72" by (simp add: k s)
  then have "drop 62 ?m \<noteq> []" by simp
  then have t: "length (key_stream 31 (drop 62 ?m) (drop 62 ?m)) = 31"
    by (rule length_key_stream)
  have "sample_tag c salt p
        = map2 mix (map2 mix (take 31 ?m) (take 31 (drop 31 ?m)))
            (key_stream 31 (drop 62 ?m) (drop 62 ?m))"
    by (simp add: sample_tag_def Let_def)
  then show ?thesis
    using m t by simp
qed

lemma digit_of_digit_char: "n < 10 \<Longrightarrow> digit_of (digit_char n) = Some n"
  by (simp add: digit_of_def digit_char_def)

lemma decodeCost_cost_digits:
  assumes "MinCost \<le> c" and "c \<le> MaxCost"
  shows "decodeCost (cost_digits c @ rest) = Inr c"
proof -
  have c: "4 \<le> c" "c \<le> 31" using assms by (simp_all add: MinCost_def MaxCost_def)
  then have d: "nat c div 10 < 10" "nat c mod 10 < 10" by simp_all
  have e: "int (10 * (nat c div 10) + nat c mod 10) = c" using c by simp
  show ?thesis
    using c by (simp add: decodeCost_def cost_digits_def digit_of_digit_char d e MinCost_def MaxCost_def)
qed

lemma sample_compare_Hash:
  assumes "MinCost \<le> c" and "c \<le> MaxCost" and "length salt = 22"
  shows "sample_compare (sample_Hash c salt (sample_tag c salt p)) p = Returned None"
proof -
  let ?h = "sample_Hash c salt (sample_tag c salt p)"
  have h: "?h = CHR ''$'' # CHR ''2'' # CHR ''a'' # CHR ''$'' # (cost_digits c @ CHR ''$'' # salt @ sample_tag c salt p)"
    by (simp add: sample_Hash_def majorVersion_def minorVersion_def)
  have len: "length ?h = 60" using assms(3) by (simp add: h)
  have d4: "drop 4 ?h = cost_digits c @ CHR ''$'' # salt @ sample_tag c salt p"
    by (simp add: h)
  have d7: "drop 7 ?h = salt @ sample_tag c salt p"
    by (simp add: h)
  have d29: "drop 29 ?h = sample_tag c salt p"
    using assms(3) by (simp add: h)
  have n0: "?h ! 0 = CHR ''$''" and n1: "?h ! Suc 0 = CHR ''2''" and n2: "?h ! 2 = CHR ''a''"
    by (simp_all add: h)
  show ?thesis
    unfolding sample_compare_def
    using assms(3)
    by (simp add: len n0 n1 n2 d4 d7 d29 minHashSize_def majorVersion_def encodedSaltSize_def
        decodeCost_cost_digits [OF assms(1,2)])
qed

lemma sample_generate_ok:
  "length p \<le> 72 \<Longrightarrow> length rnd = 16
   \<Longrightarrow> GenerateFromPassword sample_bcrypt p 10 rnd = Returned (sample_digest rnd p, None)"
  by (simp add: sample_bcrypt_def sample_generate_def sample_digest_def MinCost_def MaxCost_def
      maxSaltSize_def Let_def)

lemma sample_generate_Some:
  assumes "sample_generate p c rnd = Returned (d, None)"
  shows "\<exists>c'. MinCost \<le> c' \<and> c' \<le> MaxCost \<and> length rnd = 16
           \<and> d = sample_Hash c' (sample_encode_salt rnd) (sample_tag c' (sample_encode_salt rnd) p)
           \<and> c' = (if c < MinCost then 10 else c)"
  using assms
  by (auto simp: sample_generate_def Let_def maxSaltSize_def MinCost_def MaxCost_def split: if_splits)

lemma sample_round_trip: "round_trip sample_bcrypt"
  unfolding round_trip_def
proof (intro allI impI)
  fix password cost rnd d
  assume "GenerateFromPassword sample_bcrypt password cost rnd = Returned (d, None)"
  then have "sample_generate password cost rnd = Returned (d, None)"
    by (simp add: sample_bcrypt_def)
  then obtain c' where c': "MinCost \<le> c'" "c' \<le> MaxCost" "length rnd = 16"
      "d = sample_Hash c' (sample_encode_salt rnd) (sample_tag c' (sample_encode_salt rnd) password)"
    using sample_generate_Some by blast
  have "length (sample_encode_salt rnd) = 22"
    using c'(3) by (simp add: sample_encode_salt_def)
  then have "sample_compare d password = Returned None"
    unfolding c'(4) using c'(1,2) by (intro sample_compare_Hash)
  then show "CompareHashAndPassword sample_bcrypt d password = Returned None"
    by (simp add: sample_bcrypt_def)
qed

lemma sample_salted: "salted sample_bcrypt"
  unfolding salted_def
proof (intro allI impI)
  fix password cost rnd rnd' d d'
  assume g: "GenerateFromPassword sample_bcrypt password cost rnd = Returned (d, None)"
    and g': "GenerateFromPassword sample_bcrypt password cost rnd' = Returned (d', None)"
    and ne: "rnd \<noteq> rnd'"
  from g obtain c where c: "length rnd = 16"
      "d = sample_Hash c (sample_encode_salt rnd) (sample_tag c (sample_encode_salt rnd) password)"
      "c = (if cost < MinCost then 10 else cost)"
    using sample_generate_Some [of password cost rnd d] by (auto simp: sample_bcrypt_def)
  from g' obtain c' where c': "length rnd' = 16"
      "d' = sample_Hash c' (sample_encode_salt rnd') (sample_tag c' (sample_encode_salt rnd') password)"
      "c' = (if cost < MinCost then 10 else cost)"
    using sample_generate_Some [of password cost rnd' d'] by (auto simp: sample_bcrypt_def)
  show "d \<noteq> d'"
  proof
    assume "d = d'"
    then have "take 16 (drop 7 d) = take 16 (drop 7 d')" by simp
    then have "rnd = rnd'"
      using c(1) c'(1) unfolding c(2) c'(2)
      by (simp add: sample_Hash_def sample_encode_salt_def)
    with ne show False by contradiction
  qed
qed

lemma sample_compare_short:
  "sample_compare [] s = Returned (Some ErrHashTooShort)"
  by (simp add: sample_compare_def minHashSize_def)

lemma sample_compare_mismatch:
  "sample_compare (sample_digest rnd0 ''hello'') ''goodbye'' = Returned (Some ErrMismatchedHashAndPassword)"
  by code_simp

lemma sample_compare_collision:
  "sample_compare (sample_digest rnd0 ''a'') [CHR ''a'', CHR 0x00, CHR ''a''] = Returned None"
  by code_simp





lemma sample_generated:
  assumes "length p \<le> 72" and "length rnd = 16"
  shows "GenerateFromPassword sample_bcrypt (bytes_of_string p) (DefaultCost sample_bcrypt) rnd
         = Returned (sample_digest rnd p, None)"
  using sample_generate_ok [OF assms] by (simp add: sample_bcrypt_def bytes_of_string_def)

lemma sample_accepted:
  assumes "length rnd = 16"
  shows "CompareHashAndPassword sample_bcrypt (sample_digest rnd p) (bytes_of_string p)
         = Returned None"
proof -
  have "length (sample_encode_salt rnd) = 22"
    using assms by (simp add: sample_encode_salt_def)
  then have "sample_compare (sample_digest rnd p) p = Returned None"
    unfolding sample_digest_def
    by (intro sample_compare_Hash) (simp_all add: MinCost_def MaxCost_def)
  then show ?thesis
    by (simp add: sample_bcrypt_def bytes_of_string_def)
qed

lemma sample_hello_generated:
  "GenerateFromPassword sample_bcrypt (bytes_of_string ''hello'') (DefaultCost sample_bcrypt) rnd0
   = Returned (sample_digest rnd0 ''hello'', None)"
  by (rule sample_generated) (simp_all add: rnd0_def)

lemma sample_hello_accepted:
  "CompareHashAndPassword sample_bcrypt (sample_digest rnd0 ''hello'') (bytes_of_string ''hello'')
   = Returned None"
  by (rule sample_accepted) (simp add: rnd0_def)

lemma sample_goodbye_rejected:
  "CompareHashAndPassword sample_bcrypt (sample_digest rnd0 ''hello'') (bytes_of_string ''goodbye'')
   = Returned (Some ErrMismatchedHashAndPassword)"
  by (simp add: sample_bcrypt_def bytes_of_string_def sample_compare_mismatch)

lemma sample_too_long:
  "GenerateFromPassword sample_bcrypt (bytes_of_string (replicate 73 CHR ''x''))
     (DefaultCost sample_bcrypt) rnd0 = Returned ([], Some ErrPasswordTooLong)"
  by (simp add: sample_bcrypt_def sample_generate_def bytes_of_string_def)

section \<open>Round trip\<close>

text \<open>
  C1, as the code has it. Whenever the bcrypt package satisfies its own round trip and
  returns a digest \<open>d\<close> for the secret \<open>s\<close>, \<^verbatim>\<open>New(s)\<close> returns \<^verbatim>\<open>Hash{d}\<close> and \<^verbatim>\<open>Compare(s)\<close>
  on it returns \<^verbatim>\<open>nil\<close>; \<^verbatim>\<open>Generate(s)\<close> returns \<open>d\<close> as a string and \<^verbatim>\<open>Check(s, d)\<close>
  returns \<^verbatim>\<open>nil\<close>. The wrappers hand the secret and the digest to the package unchanged
  and add no failure of their own. The secret need not be non-empty.
\<close>

theorem New_Compare_round_trip:
  assumes "round_trip B"
    and "GenerateFromPassword B (bytes_of_string s) (DefaultCost B) rnd = Returned (d, None)"
  shows "New B rnd s = Returned \<lparr>value = d\<rparr>
         \<and> Compare B \<lparr>value = d\<rparr> s = Returned None
         \<and> Generate B rnd s = Returned (string_of_bytes d)
         \<and> Check B s (string_of_bytes d) = Returned None"
proof -
  have cmp: "CompareHashAndPassword B d (bytes_of_string s) = Returned None"
    using assms by (rule round_tripD)
  have "Compare B \<lparr>value = d\<rparr> s = Returned None"
    using cmp by (simp add: Compare_nil)
  moreover have "Check B s (string_of_bytes d) = Returned None"
    using cmp by (simp add: Check_nil)
  ultimately show ?thesis
    using assms(2) by (simp add: New_returns Generate_returns)
qed

text \<open>The round trip of \<^verbatim>\<open>"hello"\<close> on the sample instance.\<close>

theorem New_Compare_round_trip_witness:
  "New sample_bcrypt rnd0 ''hello'' = Returned \<lparr>value = sample_digest rnd0 ''hello''\<rparr>
   \<and> Compare sample_bcrypt \<lparr>value = sample_digest rnd0 ''hello''\<rparr> ''hello'' = Returned None
   \<and> Generate sample_bcrypt rnd0 ''hello'' = Returned (string_of_bytes (sample_digest rnd0 ''hello''))
   \<and> Check sample_bcrypt ''hello'' (string_of_bytes (sample_digest rnd0 ''hello'')) = Returned None"
  by (rule New_Compare_round_trip [OF sample_round_trip sample_hello_generated])

text \<open>
  C1 as stated fails: the secret of 73 bytes \<^verbatim>\<open>x\<close> is not empty, the instance rejects
  it as the bcrypt package does, and \<^verbatim>\<open>New\<close> and \<^verbatim>\<open>Generate\<close> panic: there is no digest
  to verify against.
\<close>

theorem round_trip_counterexample:
  "replicate 73 CHR ''x'' \<noteq> []
   \<and> New sample_bcrypt rnd0 (replicate 73 CHR ''x'') = Panicked ErrPasswordTooLong
   \<and> Generate sample_bcrypt rnd0 (replicate 73 CHR ''x'') = Panicked ErrPasswordTooLong"
proof -
  have "New sample_bcrypt rnd0 (replicate 73 CHR ''x'') = Panicked ErrPasswordTooLong"
    using sample_too_long by (rule New_panics)
  moreover have "Generate sample_bcrypt rnd0 (replicate 73 CHR ''x'') = Panicked ErrPasswordTooLong"
    using sample_too_long by (rule Generate_panics)
  ultimately show ?thesis by simp
qed

section \<open>Failure kinds\<close>




section \<open>Generation fails only by panicking\<close>

text \<open>
  C3. When \<^verbatim>\<open>bcrypt.GenerateFromPassword\<close> reports an error \<open>e\<close>, \<^verbatim>\<open>New\<close> and \<^verbatim>\<open>Generate\<close>
  panic with \<open>e\<close>; when it reports none they return the digest. They return exactly when
  the package returned a digest without error, and what they return is a digest alone:
  there is no error value among their results.
\<close>

theorem generation_fails_only_by_panic:
  "(GenerateFromPassword B (bytes_of_string s) (DefaultCost B) rnd = Returned (d, Some e)
      \<longrightarrow> New B rnd s = Panicked e \<and> Generate B rnd s = Panicked e)
   \<and> (GenerateFromPassword B (bytes_of_string s) (DefaultCost B) rnd = Returned (d, None)
      \<longrightarrow> New B rnd s = Returned \<lparr>value = d\<rparr>
          \<and> Generate B rnd s = Returned (string_of_bytes d))
   \<and> ((\<exists>h. New B rnd s = Returned h)
        = (\<exists>d'. GenerateFromPassword B (bytes_of_string s) (DefaultCost B) rnd = Returned (d', None)))
   \<and> ((\<exists>g. Generate B rnd s = Returned g)
        = (\<exists>d'. GenerateFromPassword B (bytes_of_string s) (DefaultCost B) rnd = Returned (d', None)))"
proof -
  have "(\<exists>h. New B rnd s = Returned h)
        = (\<exists>d'. GenerateFromPassword B (bytes_of_string s) (DefaultCost B) rnd = Returned (d', None))"
    by (auto simp: New_def split: outcome.splits option.splits prod.splits)
  moreover have "(\<exists>g. Generate B rnd s = Returned g)
        = (\<exists>d'. GenerateFromPassword B (bytes_of_string s) (DefaultCost B) rnd = Returned (d', None))"
    by (auto simp: Generate_def split: outcome.splits option.splits prod.splits)
  ultimately show ?thesis
    by (simp add: New_returns New_panics Generate_returns Generate_panics)
qed

text \<open>
  The sample instance rejects a password of 73 bytes, so both functions panic on it;
  it accepts \<^verbatim>\<open>"hello"\<close>, so both return.
\<close>

theorem generation_fails_only_by_panic_witness:
  "New sample_bcrypt rnd0 (replicate 73 CHR ''x'') = Panicked ErrPasswordTooLong
   \<and> Generate sample_bcrypt rnd0 (replicate 73 CHR ''x'') = Panicked ErrPasswordTooLong
   \<and> New sample_bcrypt rnd0 ''hello'' = Returned \<lparr>value = sample_digest rnd0 ''hello''\<rparr>
   \<and> Generate sample_bcrypt rnd0 ''hello'' = Returned (string_of_bytes (sample_digest rnd0 ''hello''))"
proof -
  from generation_fails_only_by_panic
         [of sample_bcrypt "replicate 73 CHR ''x''" rnd0 "[]" ErrPasswordTooLong] sample_too_long
  have "New sample_bcrypt rnd0 (replicate 73 CHR ''x'') = Panicked ErrPasswordTooLong
        \<and> Generate sample_bcrypt rnd0 (replicate 73 CHR ''x'') = Panicked ErrPasswordTooLong"
    by blast
  moreover from generation_fails_only_by_panic
         [of sample_bcrypt "''hello''" rnd0 "sample_digest rnd0 ''hello''"] sample_hello_generated
  have "New sample_bcrypt rnd0 ''hello'' = Returned \<lparr>value = sample_digest rnd0 ''hello''\<rparr>
        \<and> Generate sample_bcrypt rnd0 ''hello'' = Returned (string_of_bytes (sample_digest rnd0 ''hello''))"
    by blast
  ultimately show ?thesis by simp
qed

section \<open>The scenario of the package's test\<close>

text \<open>
  C4, as the code has it. Let \<open>d\<close> be the digest generated from \<^verbatim>\<open>"hello"\<close>, accepted by
  the bcrypt package for \<^verbatim>\<open>"hello"\<close> and rejected with an error \<open>e\<close> for \<^verbatim>\<open>"goodbye"\<close>. Then
  \<^verbatim>\<open>Compare("hello")\<close> and \<^verbatim>\<open>Check("hello", d)\<close> return \<^verbatim>\<open>nil\<close>. \<^verbatim>\<open>Compare("goodbye")\<close>
  returns an error whose message contains \<^verbatim>\<open>"hash mismatch"\<close>, hence \<^verbatim>\<open>"mismatch"\<close>,
  whatever \<open>e\<close> is. \<^verbatim>\<open>Check("goodbye", d)\<close> returns an error whose message is
  \<^verbatim>\<open>"check failed: "\<close> followed by the message of \<open>e\<close>; it contains \<^verbatim>\<open>"mismatch"\<close> exactly
  when the message of \<open>e\<close> does.
\<close>

theorem concrete_scenario:
  assumes "GenerateFromPassword B (bytes_of_string ''hello'') (DefaultCost B) rnd = Returned (d, None)"
    and "CompareHashAndPassword B d (bytes_of_string ''hello'') = Returned None"
    and "CompareHashAndPassword B d (bytes_of_string ''goodbye'') = Returned (Some e)"
  shows "New B rnd ''hello'' = Returned \<lparr>value = d\<rparr>
         \<and> Compare B \<lparr>value = d\<rparr> ''hello'' = Returned None
         \<and> (\<exists>w. Compare B \<lparr>value = d\<rparr> ''goodbye'' = Returned (Some w)
               \<and> Contains (Error w) ''hash mismatch'' \<and> Contains (Error w) ''mismatch'')
         \<and> Generate B rnd ''hello'' = Returned (string_of_bytes d)
         \<and> Check B ''hello'' (string_of_bytes d) = Returned None
         \<and> (\<exists>w. Check B ''goodbye'' (string_of_bytes d) = Returned (Some w)
               \<and> Error w = ''check failed: '' @ Error e
               \<and> Contains (Error w) ''mismatch'' = Contains (Error e) ''mismatch'')"
proof -
  have 1: "New B rnd ''hello'' = Returned \<lparr>value = d\<rparr>"
    using assms(1) by (rule New_returns)
  have 2: "Compare B \<lparr>value = d\<rparr> ''hello'' = Returned None"
    using assms(2) by (simp add: Compare_nil)
  have 3: "Compare B \<lparr>value = d\<rparr> ''goodbye''
           = Returned (Some (Errorf_w ''hash: compare: hash mismatch: '' e))"
    using assms(3) by (simp add: Compare_error)
  have 4: "Generate B rnd ''hello'' = Returned (string_of_bytes d)"
    using assms(1) by (rule Generate_returns)
  have 5: "Check B ''hello'' (string_of_bytes d) = Returned None"
    using assms(2) by (simp add: Check_nil)
  have 6: "Check B ''goodbye'' (string_of_bytes d) = Returned (Some (Errorf_w ''check failed: '' e))"
    using assms(3) by (simp add: Check_error)
  have 7: "Contains (Error (Errorf_w ''hash: compare: hash mismatch: '' e)) ''hash mismatch''"
    unfolding Error_Errorf_w by (rule Contains_compare_prefix)
  have 8: "Contains (Error (Errorf_w ''hash: compare: hash mismatch: '' e)) ''mismatch''"
    unfolding Error_Errorf_w by (rule Contains_compare_prefix')
  have 9: "Contains (Error (Errorf_w ''check failed: '' e)) ''mismatch'' = Contains (Error e) ''mismatch''"
    unfolding Error_Errorf_w by (rule Contains_check_prefix)
  show ?thesis
    using 1 2 3 4 5 6 7 8 9
    by (simp only: Error_Errorf_w simp_thms outcome.inject option.inject ex_simps)
qed

text \<open>The scenario on the sample instance.\<close>

theorem concrete_scenario_witness:
  "New sample_bcrypt rnd0 ''hello'' = Returned \<lparr>value = sample_digest rnd0 ''hello''\<rparr>
   \<and> Compare sample_bcrypt \<lparr>value = sample_digest rnd0 ''hello''\<rparr> ''hello'' = Returned None
   \<and> (\<exists>w. Compare sample_bcrypt \<lparr>value = sample_digest rnd0 ''hello''\<rparr> ''goodbye'' = Returned (Some w)
         \<and> Contains (Error w) ''hash mismatch'' \<and> Contains (Error w) ''mismatch'')
   \<and> Generate sample_bcrypt rnd0 ''hello'' = Returned (string_of_bytes (sample_digest rnd0 ''hello''))
   \<and> Check sample_bcrypt ''hello'' (string_of_bytes (sample_digest rnd0 ''hello'')) = Returned None
   \<and> (\<exists>w. Check sample_bcrypt ''goodbye'' (string_of_bytes (sample_digest rnd0 ''hello'')) = Returned (Some w)
         \<and> Error w = ''check failed: '' @ Error ErrMismatchedHashAndPassword
         \<and> Contains (Error w) ''mismatch'' = Contains (Error ErrMismatchedHashAndPassword) ''mismatch'')"
  by (rule concrete_scenario [OF sample_hello_generated sample_hello_accepted sample_goodbye_rejected])

text \<open>
  C4 as stated fails for \<^verbatim>\<open>Check\<close>: with the message that the bcrypt package gives its
  mismatch error, the message of the error that \<^verbatim>\<open>Check("goodbye", d)\<close> returns does not
  contain \<^verbatim>\<open>"mismatch"\<close>.
\<close>

theorem Check_message_counterexample:
  "Generate sample_bcrypt rnd0 ''hello'' = Returned (string_of_bytes (sample_digest rnd0 ''hello''))
   \<and> Check sample_bcrypt ''hello'' (string_of_bytes (sample_digest rnd0 ''hello'')) = Returned None
   \<and> Check sample_bcrypt ''goodbye'' (string_of_bytes (sample_digest rnd0 ''hello''))
       = Returned (Some (wrapError
           ''check failed: crypto/bcrypt: hashedPassword is not the hash of the given password''
           ErrMismatchedHashAndPassword))
   \<and> \<not> Contains
         ''check failed: crypto/bcrypt: hashedPassword is not the hash of the given password''
         ''mismatch''"
proof -
  have "Check sample_bcrypt ''goodbye'' (string_of_bytes (sample_digest rnd0 ''hello''))
        = Returned (Some (Errorf_w ''check failed: '' ErrMismatchedHashAndPassword))"
    using sample_goodbye_rejected by (simp add: Check_error)
  then have "Check sample_bcrypt ''goodbye'' (string_of_bytes (sample_digest rnd0 ''hello''))
       = Returned (Some (wrapError
           ''check failed: crypto/bcrypt: hashedPassword is not the hash of the given password''
           ErrMismatchedHashAndPassword))"
    by (simp add: Errorf_w_def ErrMismatchedHashAndPassword_def)
  moreover have "\<not> Contains
         ''check failed: crypto/bcrypt: hashedPassword is not the hash of the given password''
         ''mismatch''"
    by simp
  moreover have "Check sample_bcrypt ''hello'' (string_of_bytes (sample_digest rnd0 ''hello'')) = Returned None"
    using sample_hello_accepted by (simp add: Check_nil)
  moreover have "Generate sample_bcrypt rnd0 ''hello'' = Returned (string_of_bytes (sample_digest rnd0 ''hello''))"
    using sample_hello_generated by (rule Generate_returns)
  ultimately show ?thesis by blast
qed

section \<open>Distinct secrets\<close>

text \<open>
  No bcrypt package can reject every pair of distinct secrets. If its digests are at
  most \<open>L\<close> bytes long and it accepts every password of at most \<open>L + 1\<close> bytes, two
  different passwords get the same digest under the same random bytes (there are more
  passwords than digests), and by the round trip each verifies against it.
\<close>

lemma bounded_digests_collide:
  fixes f :: "bytes \<Rightarrow> bytes"
  assumes "\<forall>p. length p \<le> Suc L \<longrightarrow> length (f p) \<le> L"
  shows "\<exists>s1 s2. s1 \<noteq> s2 \<and> length s1 \<le> Suc L \<and> length s2 \<le> Suc L \<and> f s1 = f s2"
proof -
  let ?A = "{p::bytes. length p \<le> Suc L}"
  let ?D = "{d::bytes. length d \<le> L}"
  have finA: "finite ?A"
    using finite_lists_length_le [of "UNIV :: char set" "Suc L"] by simp
  have finD: "finite ?D"
    using finite_lists_length_le [of "UNIV :: char set" L] by simp
  have mem: "replicate (Suc L) (CHR ''x'') \<in> ?A" and nmem: "replicate (Suc L) (CHR ''x'') \<notin> ?D"
    by simp_all
  have sub: "?D \<subseteq> ?A" by auto
  have "?D \<noteq> ?A" using mem nmem by metis
  with sub have "?D \<subset> ?A" by (rule psubsetI)
  with finA have "card ?D < card ?A" by (rule psubset_card_mono)
  moreover have "f ` ?A \<subseteq> ?D" using assms by auto
  then have "card (f ` ?A) \<le> card ?D"
    using finD by (simp add: card_mono)
  ultimately have "card (f ` ?A) < card ?A" by simp
  then have "\<not> inj_on f ?A"
    by (rule pigeonhole)
  then obtain x y where "x \<in> ?A" "y \<in> ?A" "f x = f y" "x \<noteq> y"
    unfolding inj_on_def by blast
  then show ?thesis by auto
qed

lemma negative_property_impossible:
  assumes accepts: "\<forall>p. length p \<le> Suc L \<longrightarrow>
            (\<exists>d. GenerateFromPassword B (bytes_of_string p) (DefaultCost B) rnd = Returned (d, None)
                 \<and> length d \<le> L)"
    and rt: "round_trip B"
  shows "\<exists>s1 s2 d. s1 \<noteq> s2
           \<and> New B rnd s1 = Returned \<lparr>value = d\<rparr>
           \<and> Compare B \<lparr>value = d\<rparr> s2 = Returned None
           \<and> Generate B rnd s1 = Returned (string_of_bytes d)
           \<and> Check B s2 (string_of_bytes d) = Returned None"
proof -
  have "\<forall>p. \<exists>d. length p \<le> Suc L \<longrightarrow>
          GenerateFromPassword B (bytes_of_string p) (DefaultCost B) rnd = Returned (d, None)
          \<and> length d \<le> L"
    using accepts by blast
  then obtain f where f: "\<forall>p. length p \<le> Suc L \<longrightarrow>
          GenerateFromPassword B (bytes_of_string p) (DefaultCost B) rnd = Returned (f p, None)
          \<and> length (f p) \<le> L"
    by (rule choice [THEN exE])
  then have "\<forall>p. length p \<le> Suc L \<longrightarrow> length (f p) \<le> L" by blast
  then obtain s1 s2 where ne: "s1 \<noteq> s2" and l1: "length s1 \<le> Suc L"
      and l2: "length s2 \<le> Suc L" and eq: "f s1 = f s2"
    using bounded_digests_collide [of L f] by blast
  have g1: "GenerateFromPassword B (bytes_of_string s1) (DefaultCost B) rnd = Returned (f s1, None)"
    using f l1 by blast
  have "GenerateFromPassword B (bytes_of_string s2) (DefaultCost B) rnd = Returned (f s2, None)"
    using f l2 by blast
  then have g2: "GenerateFromPassword B (bytes_of_string s2) (DefaultCost B) rnd = Returned (f s1, None)"
    using eq by simp
  have c: "CompareHashAndPassword B (f s1) (bytes_of_string s2) = Returned None"
    using rt g2 by (rule round_tripD)
  have "New B rnd s1 = Returned \<lparr>value = f s1\<rparr>" using g1 by (rule New_returns)
  moreover have "Generate B rnd s1 = Returned (string_of_bytes (f s1))"
    using g1 by (rule Generate_returns)
  moreover have "Compare B \<lparr>value = f s1\<rparr> s2 = Returned None" using c by (simp add: Compare_nil)
  moreover have "Check B s2 (string_of_bytes (f s1)) = Returned None" using c by (simp add: Check_nil)
  ultimately show ?thesis using ne by blast
qed

text \<open>
  C5, as the code has it. For distinct secrets \<open>s1\<close> and \<open>s2\<close>, when the bcrypt package
  rejects \<open>s2\<close> for the digest \<open>d\<close> it generated from \<open>s1\<close> with an error \<open>e\<close>, \<^verbatim>\<open>Compare\<close> and
  \<^verbatim>\<open>Check\<close> return a non-nil error that wraps \<open>e\<close>: the wrappers never turn a rejection
  into \<^verbatim>\<open>nil\<close>.
\<close>

theorem distinct_secrets_rejected:
  assumes "s1 \<noteq> s2"
    and "GenerateFromPassword B (bytes_of_string s1) (DefaultCost B) rnd = Returned (d, None)"
    and "CompareHashAndPassword B d (bytes_of_string s2) = Returned (Some e)"
  shows "New B rnd s1 = Returned \<lparr>value = d\<rparr>
         \<and> Compare B \<lparr>value = d\<rparr> s2
             = Returned (Some (Errorf_w ''hash: compare: hash mismatch: '' e))
         \<and> Generate B rnd s1 = Returned (string_of_bytes d)
         \<and> Check B s2 (string_of_bytes d) = Returned (Some (Errorf_w ''check failed: '' e))"
  using assms(2,3) by (simp add: New_returns Generate_returns Compare_error Check_error)

text \<open>\<^verbatim>\<open>"goodbye"\<close> against the digest of \<^verbatim>\<open>"hello"\<close> on the sample instance.\<close>

theorem distinct_secrets_rejected_witness:
  "''hello'' \<noteq> ''goodbye''
   \<and> New sample_bcrypt rnd0 ''hello'' = Returned \<lparr>value = sample_digest rnd0 ''hello''\<rparr>
   \<and> Compare sample_bcrypt \<lparr>value = sample_digest rnd0 ''hello''\<rparr> ''goodbye''
       = Returned (Some (Errorf_w ''hash: compare: hash mismatch: '' ErrMismatchedHashAndPassword))
   \<and> Generate sample_bcrypt rnd0 ''hello'' = Returned (string_of_bytes (sample_digest rnd0 ''hello''))
   \<and> Check sample_bcrypt ''goodbye'' (string_of_bytes (sample_digest rnd0 ''hello''))
       = Returned (Some (Errorf_w ''check failed: '' ErrMismatchedHashAndPassword))"
proof -
  have ne: "''hello'' \<noteq> ''goodbye''" by simp
  show ?thesis
    using ne distinct_secrets_rejected [OF ne sample_hello_generated sample_goodbye_rejected]
    by blast
qed

text \<open>
  C5 as stated fails: the secrets \<^verbatim>\<open>"a"\<close> and \<^verbatim>\<open>"a\x00a"\<close> are distinct, and the second
  verifies against the digest of the first. The key stream of \<^verbatim>\<open>"a"\<close> is \<^verbatim>\<open>a, NUL\<close>
  repeated, and so is the key stream of \<^verbatim>\<open>"a\x00a"\<close>.
\<close>

theorem distinct_secrets_counterexample:
  "''a'' \<noteq> [CHR ''a'', CHR 0x00, CHR ''a'']
   \<and> New sample_bcrypt rnd0 ''a'' = Returned \<lparr>value = sample_digest rnd0 ''a''\<rparr>
   \<and> Compare sample_bcrypt \<lparr>value = sample_digest rnd0 ''a''\<rparr> [CHR ''a'', CHR 0x00, CHR ''a'']
       = Returned None
   \<and> Generate sample_bcrypt rnd0 ''a'' = Returned (string_of_bytes (sample_digest rnd0 ''a''))
   \<and> Check sample_bcrypt [CHR ''a'', CHR 0x00, CHR ''a''] (string_of_bytes (sample_digest rnd0 ''a''))
       = Returned None"
proof -
  have g: "GenerateFromPassword sample_bcrypt (bytes_of_string ''a'') (DefaultCost sample_bcrypt) rnd0
           = Returned (sample_digest rnd0 ''a'', None)"
    by (rule sample_generated) (simp_all add: rnd0_def)
  have c: "CompareHashAndPassword sample_bcrypt (sample_digest rnd0 ''a'')
             (bytes_of_string [CHR ''a'', CHR 0x00, CHR ''a'']) = Returned None"
    by (simp add: sample_bcrypt_def bytes_of_string_def sample_compare_collision)
  show ?thesis
    using g c by (simp add: New_returns Generate_returns Compare_nil Check_nil)
qed

section \<open>Two runs on the same secret\<close>

text \<open>
  C6, as the code has it. When the bcrypt package shows the salt in the digest and
  satisfies its round trip, two calls on the same secret \<open>s\<close> that read different random
  bytes and for which the package returns digests \<open>d1\<close> and \<open>d2\<close> return different
  digests, from \<^verbatim>\<open>New\<close> and from \<^verbatim>\<open>Generate\<close>, and \<open>s\<close> verifies against each of them.
\<close>

theorem two_runs_differ_and_verify:
  assumes "round_trip B" and "salted B" and "rnd \<noteq> rnd'"
    and "GenerateFromPassword B (bytes_of_string s) (DefaultCost B) rnd = Returned (d1, None)"
    and "GenerateFromPassword B (bytes_of_string s) (DefaultCost B) rnd' = Returned (d2, None)"
  shows "d1 \<noteq> d2
         \<and> New B rnd s = Returned \<lparr>value = d1\<rparr> \<and> New B rnd' s = Returned \<lparr>value = d2\<rparr>
         \<and> New B rnd s \<noteq> New B rnd' s
         \<and> Generate B rnd s = Returned (string_of_bytes d1)
         \<and> Generate B rnd' s = Returned (string_of_bytes d2)
         \<and> Generate B rnd s \<noteq> Generate B rnd' s
         \<and> Compare B \<lparr>value = d1\<rparr> s = Returned None
         \<and> Compare B \<lparr>value = d2\<rparr> s = Returned None
         \<and> Check B s (string_of_bytes d1) = Returned None
         \<and> Check B s (string_of_bytes d2) = Returned None"
proof -
  have ne: "d1 \<noteq> d2"
    using assms(2-5) unfolding salted_def by blast
  have c1: "CompareHashAndPassword B d1 (bytes_of_string s) = Returned None"
    using assms(1,4) by (rule round_tripD)
  have c2: "CompareHashAndPassword B d2 (bytes_of_string s) = Returned None"
    using assms(1,5) by (rule round_tripD)
  have n1: "New B rnd s = Returned \<lparr>value = d1\<rparr>" using assms(4) by (rule New_returns)
  have n2: "New B rnd' s = Returned \<lparr>value = d2\<rparr>" using assms(5) by (rule New_returns)
  have g1: "Generate B rnd s = Returned (string_of_bytes d1)" using assms(4) by (rule Generate_returns)
  have g2: "Generate B rnd' s = Returned (string_of_bytes d2)" using assms(5) by (rule Generate_returns)
  have "New B rnd s \<noteq> New B rnd' s" using ne by (simp add: n1 n2)
  moreover have "Generate B rnd s \<noteq> Generate B rnd' s"
    using ne by (simp add: g1 g2 string_of_bytes_def)
  moreover have "Compare B \<lparr>value = d1\<rparr> s = Returned None" using c1 by (simp add: Compare_nil)
  moreover have "Compare B \<lparr>value = d2\<rparr> s = Returned None" using c2 by (simp add: Compare_nil)
  moreover have "Check B s (string_of_bytes d1) = Returned None" using c1 by (simp add: Check_nil)
  moreover have "Check B s (string_of_bytes d2) = Returned None" using c2 by (simp add: Check_nil)
  ultimately show ?thesis
    using ne n1 n2 g1 g2 by blast
qed

text \<open>Two runs on \<^verbatim>\<open>"hello"\<close> with different random bytes on the sample instance.\<close>

theorem two_runs_differ_and_verify_witness:
  "rnd0 \<noteq> rnd1
   \<and> sample_digest rnd0 ''hello'' \<noteq> sample_digest rnd1 ''hello''
   \<and> New sample_bcrypt rnd0 ''hello'' = Returned \<lparr>value = sample_digest rnd0 ''hello''\<rparr>
   \<and> New sample_bcrypt rnd1 ''hello'' = Returned \<lparr>value = sample_digest rnd1 ''hello''\<rparr>
   \<and> New sample_bcrypt rnd0 ''hello'' \<noteq> New sample_bcrypt rnd1 ''hello''
   \<and> Generate sample_bcrypt rnd0 ''hello'' = Returned (string_of_bytes (sample_digest rnd0 ''hello''))
   \<and> Generate sample_bcrypt rnd1 ''hello'' = Returned (string_of_bytes (sample_digest rnd1 ''hello''))
   \<and> Generate sample_bcrypt rnd0 ''hello'' \<noteq> Generate sample_bcrypt rnd1 ''hello''
   \<and> Compare sample_bcrypt \<lparr>value = sample_digest rnd0 ''hello''\<rparr> ''hello'' = Returned None
   \<and> Compare sample_bcrypt \<lparr>value = sample_digest rnd1 ''hello''\<rparr> ''hello'' = Returned None
   \<and> Check sample_bcrypt ''hello'' (string_of_bytes (sample_digest rnd0 ''hello'')) = Returned None
   \<and> Check sample_bcrypt ''hello'' (string_of_bytes (sample_digest rnd1 ''hello'')) = Returned None"
proof -
  have ne: "rnd0 \<noteq> rnd1" by (simp add: rnd0_def rnd1_def)
  have g1: "GenerateFromPassword sample_bcrypt (bytes_of_string ''hello'') (DefaultCost sample_bcrypt) rnd1
            = Returned (sample_digest rnd1 ''hello'', None)"
    by (rule sample_generated) (simp_all add: rnd1_def)
  show ?thesis
    using ne two_runs_differ_and_verify
            [OF sample_round_trip sample_salted ne sample_hello_generated g1]
    by blast
qed

text \<open>
  C6 as stated fails: nothing in \<^verbatim>\<open>New\<close> or \<^verbatim>\<open>Generate\<close> makes two calls differ, the
  difference comes from the random bytes alone. Two calls on \<^verbatim>\<open>"hello"\<close> that read the
  same sixteen bytes return the same digest.
\<close>

theorem two_runs_counterexample:
  "Generate sample_bcrypt rnd0 ''hello'' = Returned (string_of_bytes (sample_digest rnd0 ''hello''))
   \<and> New sample_bcrypt rnd0 ''hello'' = Returned \<lparr>value = sample_digest rnd0 ''hello''\<rparr>
   \<and> \<not> (\<forall>r1 r2 d1 d2. Generate sample_bcrypt r1 ''hello'' = Returned d1
            \<and> Generate sample_bcrypt r2 ''hello'' = Returned d2 \<longrightarrow> d1 \<noteq> d2)
   \<and> \<not> (\<forall>r1 r2 h1 h2. New sample_bcrypt r1 ''hello'' = Returned h1
            \<and> New sample_bcrypt r2 ''hello'' = Returned h2 \<longrightarrow> h1 \<noteq> h2)"
proof -
  have g: "Generate sample_bcrypt rnd0 ''hello'' = Returned (string_of_bytes (sample_digest rnd0 ''hello''))"
    using sample_hello_generated by (rule Generate_returns)
  have n: "New sample_bcrypt rnd0 ''hello'' = Returned \<lparr>value = sample_digest rnd0 ''hello''\<rparr>"
    using sample_hello_generated by (rule New_returns)
  have "\<not> (\<forall>r1 r2 d1 d2. Generate sample_bcrypt r1 ''hello'' = Returned d1
            \<and> Generate sample_bcrypt r2 ''hello'' = Returned d2 \<longrightarrow> d1 \<noteq> d2)"
    using g by blast
  moreover have "\<not> (\<forall>r1 r2 h1 h2. New sample_bcrypt r1 ''hello'' = Returned h1
            \<and> New sample_bcrypt r2 ''hello'' = Returned h2 \<longrightarrow> h1 \<noteq> h2)"
    using n by blast
  ultimately show ?thesis using g n by blast
qed

section \<open>The two API surfaces agree\<close>

text \<open>
  C7. The method \<^verbatim>\<open>Hash{d}.Compare(s)\<close> and the free function \<^verbatim>\<open>Check(s, d)\<close> have the
  same outcome kind on every secret \<open>s\<close> and digest \<open>d\<close>: one returns \<^verbatim>\<open>nil\<close> exactly
  when the other does, one returns an error exactly when the other does, and one panics
  exactly when the other does.
\<close>

theorem Compare_Check_equivalent:
  "(Compare B \<lparr>value = d\<rparr> s = Returned None) = (Check B s (string_of_bytes d) = Returned None)
   \<and> ((\<exists>e. Compare B \<lparr>value = d\<rparr> s = Returned (Some e))
        = (\<exists>e. Check B s (string_of_bytes d) = Returned (Some e)))
   \<and> ((\<exists>p. Compare B \<lparr>value = d\<rparr> s = Panicked p)
        = (\<exists>p. Check B s (string_of_bytes d) = Panicked p))"
  by (simp add: Compare_def Check_def bytes_of_string_def string_of_bytes_def
      split: outcome.splits option.splits)

section \<open>Verification does not panic\<close>

text \<open>
  C8. \<^verbatim>\<open>Compare\<close> and \<^verbatim>\<open>Check\<close> contain no panic of their own: for every \<^verbatim>\<open>Hash\<close>, digest
  and secret on which \<^verbatim>\<open>bcrypt.CompareHashAndPassword\<close> returns, they return normally,
  with \<^verbatim>\<open>nil\<close> or with an error value.
\<close>

theorem verification_returns_normally:
  assumes "CompareHashAndPassword B (value h) (bytes_of_string s) = Returned r"
  shows "(Compare B h s = Returned None \<or> (\<exists>e. Compare B h s = Returned (Some e)))
         \<and> (Check B s (string_of_bytes (value h)) = Returned None
             \<or> (\<exists>e. Check B s (string_of_bytes (value h)) = Returned (Some e)))
         \<and> (\<forall>p. Compare B h s \<noteq> Panicked p)
         \<and> (\<forall>p. Check B s (string_of_bytes (value h)) \<noteq> Panicked p)"
  using assms by (cases r) (simp_all add: Compare_def Check_def)

text \<open>The empty digest is malformed; verification against it returns an error.\<close>

theorem verification_returns_normally_witness:
  "(Compare sample_bcrypt \<lparr>value = []\<rparr> ''hello'' = Returned None
      \<or> (\<exists>e. Compare sample_bcrypt \<lparr>value = []\<rparr> ''hello'' = Returned (Some e)))
   \<and> (Check sample_bcrypt ''hello'' (string_of_bytes []) = Returned None
      \<or> (\<exists>e. Check sample_bcrypt ''hello'' (string_of_bytes []) = Returned (Some e)))
   \<and> (\<forall>p. Compare sample_bcrypt \<lparr>value = []\<rparr> ''hello'' \<noteq> Panicked p)
   \<and> (\<forall>p. Check sample_bcrypt ''hello'' (string_of_bytes []) \<noteq> Panicked p)"
proof -
  have a: "CompareHashAndPassword sample_bcrypt (value \<lparr>value = []\<rparr>) (bytes_of_string ''hello'')
           = Returned (Some ErrHashTooShort)"
    by (simp add: sample_bcrypt_def sample_compare_short)
  show ?thesis
    using verification_returns_normally [OF a] by simp
qed

section \<open>The empty secret\<close>

text \<open>
  C10. Neither \<^verbatim>\<open>New\<close> nor \<^verbatim>\<open>Generate\<close> looks at the length of the secret: on the empty
  secret they return exactly when \<^verbatim>\<open>bcrypt.GenerateFromPassword\<close> returns a digest for
  it without error. When it does, and the package satisfies its round trip, \<^verbatim>\<open>New("")\<close>
  and \<^verbatim>\<open>Generate("")\<close> return the digest and verifying \<^verbatim>\<open>""\<close> against it succeeds.
\<close>

theorem empty_secret_accepted:
  assumes "round_trip B"
    and "GenerateFromPassword B (bytes_of_string '''') (DefaultCost B) rnd = Returned (d, None)"
  shows "New B rnd '''' = Returned \<lparr>value = d\<rparr>
         \<and> Generate B rnd '''' = Returned (string_of_bytes d)
         \<and> Compare B \<lparr>value = d\<rparr> '''' = Returned None
         \<and> Check B '''' (string_of_bytes d) = Returned None
         \<and> (\<forall>B' rnd'. (\<exists>h. New B' rnd' '''' = Returned h)
               = (\<exists>d'. GenerateFromPassword B' [] (DefaultCost B') rnd' = Returned (d', None)))
         \<and> (\<forall>B' rnd'. (\<exists>g. Generate B' rnd' '''' = Returned g)
               = (\<exists>d'. GenerateFromPassword B' [] (DefaultCost B') rnd' = Returned (d', None)))"
proof -
  have c: "CompareHashAndPassword B d (bytes_of_string '''') = Returned None"
    using assms by (rule round_tripD)
  have n: "(\<exists>h. New B' rnd' '''' = Returned h)
           = (\<exists>d'. GenerateFromPassword B' [] (DefaultCost B') rnd' = Returned (d', None))"
    for B' rnd'
    by (auto simp: New_def bytes_of_string_def split: outcome.splits option.splits prod.splits)
  have g: "(\<exists>g. Generate B' rnd' '''' = Returned g)
           = (\<exists>d'. GenerateFromPassword B' [] (DefaultCost B') rnd' = Returned (d', None))"
    for B' rnd'
    by (auto simp: Generate_def bytes_of_string_def split: outcome.splits option.splits prod.splits)
  have "New B rnd '''' = Returned \<lparr>value = d\<rparr>"
    using assms(2) by (rule New_returns)
  moreover have "Generate B rnd '''' = Returned (string_of_bytes d)"
    using assms(2) by (rule Generate_returns)
  moreover have "Compare B \<lparr>value = d\<rparr> '''' = Returned None"
    using c by (simp add: Compare_nil)
  moreover have "Check B '''' (string_of_bytes d) = Returned None"
    using c by (simp add: Check_nil)
  ultimately show ?thesis
    using n g by blast
qed

theorem empty_secret_accepted_witness:
  "New sample_bcrypt rnd0 '''' = Returned \<lparr>value = sample_digest rnd0 ''''\<rparr>
   \<and> Generate sample_bcrypt rnd0 '''' = Returned (string_of_bytes (sample_digest rnd0 ''''))
   \<and> Compare sample_bcrypt \<lparr>value = sample_digest rnd0 ''''\<rparr> '''' = Returned None
   \<and> Check sample_bcrypt '''' (string_of_bytes (sample_digest rnd0 '''')) = Returned None"
proof -
  have g: "GenerateFromPassword sample_bcrypt (bytes_of_string '''') (DefaultCost sample_bcrypt) rnd0
           = Returned (sample_digest rnd0 '''', None)"
    by (rule sample_generated) (simp_all add: rnd0_def)
  show ?thesis
    using empty_secret_accepted [OF sample_round_trip g] by blast
qed

end
